theory Spec2Isabelle
  imports Main
begin

section \<open>SQL tables of the Durable Object\<close>

text \<open>
  The Durable Object keeps two SQLite tables, \<open>rate_limits\<close> and \<open>user_locks\<close>.
  A table is a list of rows, each row paired with the value of its key column; the SQL
  statements the source executes become list functions. The cursor's \<open>one()\<close> is
  taken the way the source's guards (\<open>if (row && ...)\<close>, \<open>!row\<close>) read it: the
  row selected by the key, or a falsy value when there is none.
\<close>

type_synonym ('k, 'r) sql_table = "('k \<times> 'r) list"

definition sql_select_one :: "('k, 'r) sql_table \<Rightarrow> 'k \<Rightarrow> 'r option" where
  "sql_select_one t k = map_of t k"

text \<open>\<open>INSERT ... ON CONFLICT(key) DO UPDATE SET ...\<close>\<close>

definition sql_upsert :: "'k \<Rightarrow> 'r \<Rightarrow> ('r \<Rightarrow> 'r) \<Rightarrow> ('k, 'r) sql_table \<Rightarrow> ('k, 'r) sql_table" where
  "sql_upsert k ins upd t =
     (if k \<in> fst ` set t
      then map (\<lambda>(k', r). if k' = k then (k', upd r) else (k', r)) t
      else t @ [(k, ins)])"

text \<open>\<open>UPDATE ... SET ... WHERE cond\<close>\<close>

definition sql_update :: "('k \<Rightarrow> 'r \<Rightarrow> bool) \<Rightarrow> ('r \<Rightarrow> 'r) \<Rightarrow> ('k, 'r) sql_table \<Rightarrow> ('k, 'r) sql_table" where
  "sql_update cond upd t = map (\<lambda>(k', r). if cond k' r then (k', upd r) else (k', r)) t"

text \<open>\<open>DELETE FROM ... WHERE cond\<close>; \<open>sql_changes\<close> is \<open>meta.changes\<close>.\<close>

definition sql_delete :: "('k \<Rightarrow> 'r \<Rightarrow> bool) \<Rightarrow> ('k, 'r) sql_table \<Rightarrow> ('k, 'r) sql_table" where
  "sql_delete cond t = filter (\<lambda>(k', r). \<not> cond k' r) t"


section \<open>RateLimitDO\<close>

record rate_row =
  rl_count :: int
  rl_expires_at :: int
  rl_created_at :: int
  rl_updated_at :: int

record lock_row =
  owner_token :: string
  lk_expires_at :: int
  lk_created_at :: int
  lk_updated_at :: int

record cache_entry =
  ce_count :: int
  ce_expiresAt :: int

record do_state =
  rate_limits :: "(string, rate_row) sql_table"
  user_locks :: "(string, lock_row) sql_table"
  cache :: "string \<rightharpoonup> cache_entry"

definition do_init :: do_state where
  "do_init = \<lparr>rate_limits = [], user_locks = [], cache = Map.empty\<rparr>"

datatype do_error = MissingParameters


subsection \<open>acquireLock\<close>



subsection \<open>releaseLock\<close>


subsection \<open>renewLock\<close>



subsection \<open>check\<close>

record check_result =
  allowed :: bool
  remaining :: int

definition check :: "string \<Rightarrow> int \<Rightarrow> int \<Rightarrow> int \<Rightarrow> do_state \<Rightarrow> do_error + (check_result \<times> do_state)" where
  "check key limit window now s =
     (if key = [] \<or> limit = 0 \<or> window = 0 then Inl MissingParameters
      else
        let expiresAt = now + window * 1000;
            cached = cache s key
        in if (case cached of Some c \<Rightarrow> ce_expiresAt c > now | None \<Rightarrow> False)
           then
             (let c = the cached in
              if ce_count c \<ge> limit
              then Inr (\<lparr>allowed = False, remaining = 0\<rparr>, s)
              else Inr (\<lparr>allowed = True, remaining = limit - (ce_count c + 1)\<rparr>,
                     s\<lparr>rate_limits := sql_upsert key
                          \<lparr>rl_count = ce_count c + 1, rl_expires_at = expiresAt,
                           rl_created_at = now, rl_updated_at = now\<rparr>
                          (\<lambda>r. r\<lparr>rl_count := rl_count r + 1, rl_updated_at := now\<rparr>)
                          (rate_limits s),
                       cache := (cache s)(key \<mapsto> \<lparr>ce_count = ce_count c + 1, ce_expiresAt = expiresAt\<rparr>)\<rparr>))
           else
             (let result = sql_select_one (rate_limits s) key in
              if (case result of Some r \<Rightarrow> rl_expires_at r > now | None \<Rightarrow> False)
              then
                (let r = the result in
                 if rl_count r \<ge> limit
                 then Inr (\<lparr>allowed = False, remaining = 0\<rparr>,
                        s\<lparr>cache := (cache s)(key \<mapsto> \<lparr>ce_count = rl_count r, ce_expiresAt = rl_expires_at r\<rparr>)\<rparr>)
                 else
                   (let newCount = rl_count r + 1 in
                    Inr (\<lparr>allowed = True, remaining = limit - newCount\<rparr>,
                      s\<lparr>rate_limits := sql_update (\<lambda>k r. k = key)
                           (\<lambda>r. r\<lparr>rl_count := rl_count r + 1, rl_updated_at := now\<rparr>)
                           (rate_limits s),
                        cache := (cache s)(key \<mapsto> \<lparr>ce_count = newCount, ce_expiresAt = rl_expires_at r\<rparr>)\<rparr>)))
              else
                Inr (\<lparr>allowed = True, remaining = limit - 1\<rparr>,
                  s\<lparr>rate_limits := sql_upsert key
                       \<lparr>rl_count = 1, rl_expires_at = expiresAt,
                        rl_created_at = now, rl_updated_at = now\<rparr>
                       (\<lambda>r. r\<lparr>rl_count := 1, rl_expires_at := expiresAt, rl_updated_at := now\<rparr>)
                       (rate_limits s),
                    cache := (cache s)(key \<mapsto> \<lparr>ce_count = 1, ce_expiresAt = expiresAt\<rparr>)\<rparr>)))"

subsection \<open>cleanupExpired\<close>


subsection \<open>Serial runs of check\<close>



subsection \<open>The reference algorithm of the counter\<close>




subsection \<open>Serial runs of the lock operations\<close>

text \<open>
  A call that throws does so in its parameter check, before any statement is executed,
  and leaves the tables as they were.
\<close>

datatype do_call =
    AcquireLock string string int int
  | ReleaseLock string string
  | RenewLock string string int int
  | CleanupExpired int






section \<open>The worker's environment\<close>

text \<open>
  The worker reaches everything outside a call through its \<open>env\<close> bindings and a few
  module-level objects. They are gathered in one record that every operation takes and
  returns: the Durable Object namespace, the KV namespace \<open>TOPIC_MAP\<close>, the D1 database,
  the module-level \<open>threadHealthCache\<close>, what \<open>Logger\<close> has written, the Telegram Bot
  API and the clock. Storage calls are taken to succeed and to be read back as written;
  the expiry of KV entries is not modelled (no entry expires within a scenario).
\<close>

subsection \<open>Strings of numbers\<close>

fun digits_of :: "nat \<Rightarrow> string" where
  "digits_of n =
     (if n < 10 then [''0123456789'' ! n]
      else digits_of (n div 10) @ [''0123456789'' ! (n mod 10)])"

declare digits_of.simps [simp del]

definition String :: "int \<Rightarrow> string" where
  "String n = (if n < 0 then CHR ''-'' # digits_of (nat (- n)) else digits_of (nat n))"

subsection \<open>Logger\<close>

datatype log_level = LogDebug | LogInfo | LogWarn | LogError

type_synonym log_entry = "log_level \<times> string"

subsection \<open>The Durable Object seen from the worker\<close>

text \<open>
  An RPC to the object either throws at the caller (the object cannot be reached, is
  overloaded, ...) or runs the method on the object's state. A stub is the object's state
  together with the fault, if any, that calls to it currently meet. An error thrown
  inside the method reaches the caller as an error without the \<open>retryable\<close> and
  \<open>overloaded\<close> marks (the fields \<open>e_retryable\<close>, \<open>e_overloaded\<close>).
\<close>

record rpc_error =
  e_retryable :: bool
  e_overloaded :: bool
  e_message :: string

datatype do_stub = Stub (fault: "rpc_error option") (object: do_state)

definition thrown_in_object :: "do_error \<Rightarrow> rpc_error" where
  "thrown_in_object e = \<lparr>e_retryable = False, e_overloaded = False, e_message = ''Missing parameters''\<rparr>"

definition stub_call :: "(do_state \<Rightarrow> do_error + ('r \<times> do_state)) \<Rightarrow> do_stub \<Rightarrow> (rpc_error + 'r) \<times> do_stub" where
  "stub_call method stub =
     (case fault stub of
        Some e \<Rightarrow> (Inl e, stub)
      | None \<Rightarrow>
          (case method (object stub) of
             Inl e \<Rightarrow> (Inl (thrown_in_object e), stub)
           | Inr (r, s') \<Rightarrow> (Inr r, Stub None s')))"

definition stub_check :: "do_stub \<Rightarrow> string \<Rightarrow> int \<Rightarrow> int \<Rightarrow> int \<Rightarrow> (rpc_error + check_result) \<times> do_stub" where
  "stub_check stub key limit window now = stub_call (check key limit window now) stub"




subsection \<open>The KV namespace\<close>

text \<open>
  KV keys are template strings, \<open>`user_challenge:${userId}`\<close> and the like; each
  template is a constructor. Values are strings; those written with \<open>String(n)\<close> or
  \<open>JSON.stringify\<close> are kept as the number or object they encode.
\<close>

datatype kv_key =
    K_ratelimit string int
  | K_lock string int
  | K_user_challenge int
  | K_chal string
  | K_verified int
  | K_needs_verify int
  | K_retry int
  | K_banned int
  | K_user int
  | K_thread int
  | K_thread_ok int
  | K_forwarded int int
  | K_msg_map int int

record challenge_state =
  answerIndex :: int
  options :: "string list"
  pending_ids :: "int list option"
  pending :: "int option"
  chal_userId :: "int option"

record topic_rec =
  thread_id :: "int option"
  title :: "string option"
  closed :: bool

datatype kv_value =
    Str string
  | Num int
  | ChalJSON challenge_state
  | RecJSON topic_rec
  | MsgMapJSON int int int

subsection \<open>The D1 database\<close>

record user_row =
  u_thread_id :: "int option"
  u_title :: "string option"
  u_closed :: bool
  u_verify_state :: "string option"
  u_verify_expires_at :: "int option"
  u_is_blocked :: bool

record d1_db =
  users :: "(int, user_row) sql_table"
  threads :: "(int, int) sql_table"
  messages :: "(int \<times> int, int \<times> int) sql_table"

subsection \<open>The Telegram Bot API\<close>

text \<open>
  The texts the bot sends are Chinese sentences; each is named by a constructor.
  \<open>tgCall\<close> never throws: a transport failure comes back as \<open>{ ok: false, description }\<close>.
  The platform's answers are a script: the n-th call made gets the n-th reply.
\<close>

datatype tg_text =
    Text string
  | TxtRateLimited
  | TxtVerifyTooFrequent
  | TxtChallenge string
  | TxtKeywordBlocked
  | TxtConversationClosed
  | TxtSystemBusy
  | TxtSendFailed
  | TxtVerifyExpired
  | TxtDataError
  | TxtInvalidVerify
  | TxtInvalidOption
  | TxtVerifyPassed
  | TxtVerifySuccess
  | TxtWrongAnswer
  | TxtSystemError
  | TxtPendingDelivered int
  | TxtAutoSendFailed
  | TxtLockBusy

datatype tg_call =
    SendMessage int "int option" tg_text "(string \<times> string) list list"
  | DeleteMessage int int
  | CopyMessage int int int "int option"
  | AnswerCallbackQuery string tg_text bool
  | EditMessageText int int tg_text
  | CreateForumTopic int string
  | CloseForumTopic int int

record tg_result =
  message_thread_id :: "int option"
  message_id :: "int option"

record tg_response =
  tg_ok :: bool
  tg_result :: "tg_result option"
  tg_description :: "string option"

subsection \<open>The world\<close>

record health_fact =
  hf_ts :: int
  hf_ok :: bool

record world =
  RATE_LIMIT_DO :: "(string \<Rightarrow> do_stub) option"
  TOPIC_MAP :: "kv_key \<rightharpoonup> kv_value"
  TG_BOT_DB :: "d1_db option"
  SUPERGROUP_ID :: int
  threadHealthCache :: "int \<rightharpoonup> health_fact"
  logged :: "log_entry list"
  tg_replies :: "nat \<Rightarrow> tg_response"
  tg_calls :: "tg_call list"
  clock :: int

definition Logger :: "log_level \<Rightarrow> string \<Rightarrow> world \<Rightarrow> world" where
  "Logger level event w = w\<lparr>logged := logged w @ [(level, event)]\<rparr>"

definition tgCall :: "tg_call \<Rightarrow> world \<Rightarrow> tg_response \<times> world" where
  "tgCall c w = (tg_replies w (length (tg_calls w)), w\<lparr>tg_calls := tg_calls w @ [c]\<rparr>)"

definition hasD1 :: "world \<Rightarrow> bool" where
  "hasD1 w = (TG_BOT_DB w \<noteq> None)"

section \<open>checkRateLimit\<close>

text \<open>
  \<open>parseInt(countStr || '0')\<close>: the key is written by this function only, as
  \<open>String(count + 1)\<close>; an absent key counts as 0.
\<close>

definition kv_count :: "kv_value option \<Rightarrow> int" where
  "kv_count v = (case v of Some (Num n) \<Rightarrow> n | _ \<Rightarrow> 0)"

definition checkRateLimit :: "int \<Rightarrow> string \<Rightarrow> int \<Rightarrow> int \<Rightarrow> world \<Rightarrow> check_result \<times> world" where
  "checkRateLimit userId action limit window w =
     (case RATE_LIMIT_DO w of
        None \<Rightarrow>
          (let w1 = Logger LogWarn ''rate_limit_do_not_configured'' w;
               key = K_ratelimit action userId;
               count = kv_count (TOPIC_MAP w1 key)
           in if count \<ge> limit
              then (\<lparr>allowed = False, remaining = 0\<rparr>, w1)
              else (\<lparr>allowed = True, remaining = limit - count - 1\<rparr>,
                    w1\<lparr>TOPIC_MAP := (TOPIC_MAP w1)(key \<mapsto> Num (count + 1))\<rparr>))
      | Some ns \<Rightarrow>
          (case stub_check (ns (String userId)) (action @ '':'' @ String userId) limit window (clock w) of
             (Inr res, stub') \<Rightarrow>
               (\<lparr>allowed = allowed res, remaining = remaining res\<rparr>,
                w\<lparr>RATE_LIMIT_DO := Some (ns(String userId := stub'))\<rparr>)
           | (Inl e, stub') \<Rightarrow>
               (\<lparr>allowed = True, remaining = limit\<rparr>,
                (if e_retryable e then Logger LogWarn ''rate_limit_do_retryable_error'' w
                 else if e_overloaded e then Logger LogWarn ''rate_limit_do_overloaded'' w
                 else Logger LogError ''rate_limit_do_call_failed'' w))))"

section \<open>topic-utils\<close>

definition toLowerCase :: "string \<Rightarrow> string" where
  "toLowerCase s =
     map (\<lambda>c. let n = (of_char c :: nat) in if 65 \<le> n \<and> n \<le> 90 then char_of (n + 32) else c) s"

fun str_includes :: "string \<Rightarrow> string \<Rightarrow> bool" where
  "str_includes [] pat = (pat = [])"
| "str_includes (c # cs) pat = (take (length pat) (c # cs) = pat \<or> str_includes cs pat)"

definition normalizeTgDescription :: "string option \<Rightarrow> string" where
  "normalizeTgDescription d = toLowerCase (case d of None \<Rightarrow> [] | Some s \<Rightarrow> s)"

definition isTopicMissingOrDeleted :: "string option \<Rightarrow> bool" where
  "isTopicMissingOrDeleted d =
     (let desc = normalizeTgDescription d in
      str_includes desc ''thread not found'' \<or>
      str_includes desc ''topic not found'' \<or>
      str_includes desc ''message thread not found'' \<or>
      str_includes desc ''topic deleted'' \<or>
      str_includes desc ''thread deleted'' \<or>
      str_includes desc ''forum topic not found'' \<or>
      str_includes desc ''topic closed permanently'')"

definition isTestMessageInvalid :: "string option \<Rightarrow> bool" where
  "isTestMessageInvalid d =
     (let desc = normalizeTgDescription d in
      str_includes desc ''message text is empty'' \<or>
      str_includes desc ''bad request: message text is empty'')"

subsection \<open>probeForumThread\<close>

datatype probe_status =
    StatusOk | Redirected | Missing | MissingThreadId | ProbeInvalid | UnknownError

record probe_result =
  status :: probe_status
  probe_description :: "string option"
  actualThreadId :: "int option"

text \<open>The thread id and the message id of an acknowledgment, \<open>res.result?.message_thread_id\<close>
  and \<open>res.result?.message_id\<close>; a message id is truthy when it is present and not 0.\<close>

definition ack_thread :: "tg_response \<Rightarrow> int option" where
  "ack_thread res = (case tg_result res of None \<Rightarrow> None | Some r \<Rightarrow> message_thread_id r)"

definition ack_message :: "tg_response \<Rightarrow> int option" where
  "ack_message res = (case tg_result res of None \<Rightarrow> None | Some r \<Rightarrow> message_id r)"

definition truthy :: "int option \<Rightarrow> bool" where
  "truthy v = (case v of None \<Rightarrow> False | Some n \<Rightarrow> n \<noteq> 0)"

definition attemptOnce :: "int \<Rightarrow> world \<Rightarrow> probe_result \<times> world" where
  "attemptOnce expectedThreadId w =
     (let (res, w1) = tgCall (SendMessage (SUPERGROUP_ID w) (Some expectedThreadId) (Text ''probe'') []) w;
          actual = ack_thread res;
          probeMessageId = ack_message res;
          w2 = (if tg_ok res \<and> truthy probeMessageId
                then snd (tgCall (DeleteMessage (SUPERGROUP_ID w1) (the probeMessageId)) w1)
                else w1)
      in if \<not> tg_ok res
         then (if isTopicMissingOrDeleted (tg_description res)
               then (\<lparr>status = Missing, probe_description = tg_description res, actualThreadId = None\<rparr>, w2)
               else if isTestMessageInvalid (tg_description res)
               then (\<lparr>status = ProbeInvalid, probe_description = tg_description res, actualThreadId = None\<rparr>, w2)
               else (\<lparr>status = UnknownError, probe_description = tg_description res, actualThreadId = None\<rparr>, w2))
         else (case actual of
                 None \<Rightarrow> (\<lparr>status = MissingThreadId, probe_description = None, actualThreadId = None\<rparr>, w2)
               | Some a \<Rightarrow>
                   if a \<noteq> expectedThreadId
                   then (\<lparr>status = Redirected, probe_description = None, actualThreadId = Some a\<rparr>, w2)
                   else (\<lparr>status = StatusOk, probe_description = None, actualThreadId = None\<rparr>, w2)))"

definition probeForumThread :: "int \<Rightarrow> bool \<Rightarrow> world \<Rightarrow> probe_result \<times> world" where
  "probeForumThread expectedThreadId doubleCheckOnMissingThreadId w =
     (let (first, w1) = attemptOnce expectedThreadId w in
      if status first \<noteq> MissingThreadId \<or> \<not> doubleCheckOnMissingThreadId then (first, w1)
      else
        (let (second, w2) = attemptOnce expectedThreadId w1 in
         (second,
          if status second = MissingThreadId
          then Logger LogWarn ''probe_missing_thread_id_confirmed'' w2
          else w2)))"

text \<open>The reply the next call to the platform will get, and the number of probe
  messages sent so far.\<close>

definition next_reply :: "world \<Rightarrow> tg_response" where
  "next_reply w = tg_replies w (length (tg_calls w))"

fun is_probe_send :: "tg_call \<Rightarrow> bool" where
  "is_probe_send (SendMessage chat thread txt kb) = (txt = Text ''probe'')"
| "is_probe_send c = False"

definition probe_sends :: "world \<Rightarrow> nat" where
  "probe_sends w = length (filter is_probe_send (tg_calls w))"

text \<open>A world for examples: no Durable Object binding, empty stores, and a platform
  that acknowledges every call without a thread id.\<close>

definition world0 :: world where
  "world0 =
     \<lparr>RATE_LIMIT_DO = None, TOPIC_MAP = Map.empty, TG_BOT_DB = None,
      SUPERGROUP_ID = -1001234, threadHealthCache = Map.empty, logged = [],
      tg_replies = (\<lambda>n. \<lparr>tg_ok = True,
         tg_result = Some \<lparr>message_thread_id = None, message_id = Some (int n + 500)\<rparr>,
         tg_description = None\<rparr>),
      tg_calls = [], clock = 0\<rparr>"

text \<open>The same world behind an unreachable Durable Object, and with a platform that
  acknowledges every call from thread 7.\<close>

definition unreachable_world :: world where
  "unreachable_world = world0\<lparr>RATE_LIMIT_DO :=
     Some (\<lambda>name. Stub (Some \<lparr>e_retryable = True, e_overloaded = False,
                                     e_message = ''Network connection lost''\<rparr>) do_init)\<rparr>"

definition redirecting_world :: world where
  "redirecting_world = world0\<lparr>tg_replies := (\<lambda>n. \<lparr>tg_ok = True,
         tg_result = Some \<lparr>message_thread_id = Some 7, message_id = Some (int n + 500)\<rparr>,
         tg_description = None\<rparr>)\<rparr>"

section \<open>Configuration constants\<close>

definition PENDING_MAX_MESSAGES :: nat where "PENDING_MAX_MESSAGES = 10"
definition VERIFIED_EXPIRE_SECONDS :: int where "VERIFIED_EXPIRE_SECONDS = 2592000"

section \<open>storage-d1\<close>

definition empty_user_row :: user_row where
  "empty_user_row =
     \<lparr>u_thread_id = None, u_title = None, u_closed = False, u_verify_state = None,
      u_verify_expires_at = None, u_is_blocked = False\<rparr>"

text \<open>\<open>dbUserUpdate(env, userId, data)\<close>: \<open>ensureUserRow\<close> inserts the row when it is
  missing (\<open>INSERT OR IGNORE\<close>), then the columns named in \<open>data\<close> are set; \<open>data\<close> is
  given as the update of the row it describes. Thread ids are kept as numbers (the
  tables hold \<open>String(threadId)\<close>).\<close>

definition ensureUserRow :: "int \<Rightarrow> d1_db \<Rightarrow> d1_db" where
  "ensureUserRow userId db =
     (if userId \<in> fst ` set (users db) then db
      else db\<lparr>users := users db @ [(userId, empty_user_row)]\<rparr>)"

definition dbUserUpdate :: "int \<Rightarrow> (user_row \<Rightarrow> user_row) \<Rightarrow> world \<Rightarrow> world" where
  "dbUserUpdate userId data w =
     (case TG_BOT_DB w of
        None \<Rightarrow> w
      | Some db \<Rightarrow>
          (let db1 = ensureUserRow userId db
           in w\<lparr>TG_BOT_DB := Some (db1\<lparr>users := sql_update (\<lambda>k r. k = userId) data (users db1)\<rparr>)\<rparr>))"


definition dbSetVerifyState :: "int \<Rightarrow> string \<Rightarrow> world \<Rightarrow> world" where
  "dbSetVerifyState userId state w =
     (if \<not> hasD1 w then w
      else if state = [] then
        dbUserUpdate userId (\<lambda>r. r\<lparr>u_verify_state := None, u_verify_expires_at := None\<rparr>) w
      else
        (let now = clock w;
             expiresAt = (if state = ''trusted'' then None
                          else Some (now + VERIFIED_EXPIRE_SECONDS * 1000))
         in dbUserUpdate userId
              (\<lambda>r. r\<lparr>u_verify_state := Some state, u_verify_expires_at := expiresAt\<rparr>) w))"




definition dbThreadDelete :: "int \<Rightarrow> world \<Rightarrow> world" where
  "dbThreadDelete threadId w =
     (case TG_BOT_DB w of
        None \<Rightarrow> w
      | Some db \<Rightarrow>
          w\<lparr>TG_BOT_DB := Some (db\<lparr>threads := sql_delete (\<lambda>k u. k = threadId) (threads db)\<rparr>)\<rparr>)"



section \<open>storage-kv\<close>

definition kv_put :: "kv_key \<Rightarrow> kv_value \<Rightarrow> world \<Rightarrow> world" where
  "kv_put k v w = w\<lparr>TOPIC_MAP := (TOPIC_MAP w)(k \<mapsto> v)\<rparr>"

definition kv_delete :: "kv_key \<Rightarrow> world \<Rightarrow> world" where
  "kv_delete k w = w\<lparr>TOPIC_MAP := (TOPIC_MAP w)(k := None)\<rparr>"


section \<open>verification\<close>

subsection \<open>The pending set of a challenge\<close>

text \<open>The ids a stored challenge holds: the array \<open>pending_ids\<close>, or the single
  \<open>pending\<close> id of an older record.\<close>

definition pendingIdsOf :: "challenge_state \<Rightarrow> int list" where
  "pendingIdsOf state =
     (case pending_ids state of
        Some ids \<Rightarrow> ids
      | None \<Rightarrow> if truthy (pending state) then [the (pending state)] else [])"


subsection \<open>sendVerificationChallengeImpl\<close>









subsection \<open>handleCallbackQueryImpl\<close>







text \<open>The bound and the absence of duplicates, for one stored challenge and for every
  challenge of the KV namespace.\<close>

definition pending_ok :: "challenge_state \<Rightarrow> bool" where
  "pending_ok state =
     (distinct (pendingIdsOf state) \<and> length (pendingIdsOf state) \<le> PENDING_MAX_MESSAGES)"

definition challenges_ok :: "world \<Rightarrow> bool" where
  "challenges_ok w = (\<forall>vid state. TOPIC_MAP w (K_chal vid) = Some (ChalJSON state) \<longrightarrow> pending_ok state)"






section \<open>user-lock\<close>







definition put_stub :: "int \<Rightarrow> do_stub \<Rightarrow> world \<Rightarrow> world" where
  "put_stub userId stub w =
     (case RATE_LIMIT_DO w of
        None \<Rightarrow> w
      | Some ns \<Rightarrow> w\<lparr>RATE_LIMIT_DO := Some (ns(String userId := stub))\<rparr>)"

subsection \<open>acquireUserLock\<close>






subsection \<open>releaseUserLock\<close>


subsection \<open>withUserLock\<close>


datatype event =
    Effect string
  | HeartbeatDue int
  | Foreign do_call
  | Fault "rpc_error option"

text \<open>What an observer sees of one call of \<open>withUserLock\<close>.\<close>

datatype lock_obs =
    Did string
  | HeartbeatRenewed
  | HeartbeatRejected
  | HeartbeatThrew
  | ReleaseCalled string string




text \<open>The effects of a list of events, and the lease row a token holds in a world.\<close>

fun effects_of :: "event list \<Rightarrow> lock_obs list" where
  "effects_of [] = []"
| "effects_of (Effect l # es) = Did l # effects_of es"
| "effects_of (e # es) = effects_of es"











section \<open>topic-lifecycle\<close>

subsection \<open>resetUserVerificationAndRequireReverifyImpl\<close>


section \<open>message-flow\<close>

record message =
  m_message_id :: int
  m_chat_id :: int
  m_text :: "string option"
  m_caption :: "string option"
  m_media_group_id :: "string option"







subsection \<open>forwardToTopicImpl: the health check of the bound thread\<close>



subsection \<open>forwardToTopicImpl: copying the message into the thread\<close>




subsection \<open>forwardToTopicImpl: a message for a bound thread\<close>



subsection \<open>forwardToTopicImpl\<close>





subsection \<open>The Lost transition\<close>







definition bound_world :: world where
  "bound_world = redirecting_world\<lparr>TOPIC_MAP :=
     [K_verified 42 \<mapsto> Str ''1'',
      K_user 42 \<mapsto> RecJSON \<lparr>thread_id = Some 5, title = Some ''User'', closed = False\<rparr>,
      K_thread 5 \<mapsto> Str ''42'']\<rparr>"




section \<open>Properties of the SQL tables\<close>

lemma map_of_map_upd:
  "map_of (map (\<lambda>(k', r). if k' = k then (k', upd r) else (k', r)) t) k' =
     (if k' = k then map_option upd (map_of t k) else map_of t k')"
  by (induction t) auto

lemma select_upsert:
  "sql_select_one (sql_upsert k ins upd t) k' =
     (if k' = k then Some (case sql_select_one t k of None \<Rightarrow> ins | Some r \<Rightarrow> upd r)
      else sql_select_one t k')"
proof (cases "k \<in> fst ` set t")
  case True
  then obtain r where "map_of t k = Some r"
    by (metis domD dom_map_of_conv_image_fst)
  with True show ?thesis
    by (simp add: sql_select_one_def sql_upsert_def map_of_map_upd)
next
  case False
  then have "map_of t k = None"
    by (simp add: map_of_eq_None_iff)
  with False show ?thesis
    by (simp add: sql_select_one_def sql_upsert_def map_add_def split: option.splits)
qed

section \<open>Properties of check\<close>








section \<open>Properties of the lease lock\<close>













section \<open>Properties of checkRateLimit\<close>

text \<open>
  Claim C9. When the Durable Object binding is configured and the \<open>check\<close> call throws
  at the worker, \<open>checkRateLimit\<close> answers \<open>allowed = true\<close> with \<open>remaining\<close> equal
  to the full limit, and does nothing else than write one log entry: a warning for a
  retryable or overloaded error, an error otherwise.
\<close>

theorem checkRateLimit_fails_open:
  assumes "RATE_LIMIT_DO w = Some ns"
    and "fst (stub_check (ns (String userId)) (action @ '':'' @ String userId) limit window (clock w)) = Inl e"
  shows "fst (checkRateLimit userId action limit window w) = \<lparr>allowed = True, remaining = limit\<rparr>
    \<and> snd (checkRateLimit userId action limit window w) =
        Logger (if e_retryable e \<or> e_overloaded e then LogWarn else LogError)
          (if e_retryable e then ''rate_limit_do_retryable_error''
           else if e_overloaded e then ''rate_limit_do_overloaded''
           else ''rate_limit_do_call_failed'') w"
  using assms by (auto simp: checkRateLimit_def split: prod.splits sum.splits)

theorem checkRateLimit_fails_open_witness:
  "checkRateLimit 42 ''message'' 45 60 unreachable_world =
     (\<lparr>allowed = True, remaining = 45\<rparr>,
      unreachable_world\<lparr>logged := [(LogWarn, ''rate_limit_do_retryable_error'')]\<rparr>)"
  using checkRateLimit_fails_open [where w = unreachable_world and userId = 42 and action = "''message''"
      and limit = 45 and window = 60
      and ns = "\<lambda>name. Stub (Some \<lparr>e_retryable = True, e_overloaded = False,
                                     e_message = ''Network connection lost''\<rparr>) do_init"
      and e = "\<lparr>e_retryable = True, e_overloaded = False, e_message = ''Network connection lost''\<rparr>"]
  by (simp add: unreachable_world_def world0_def stub_check_def stub_call_def Logger_def prod_eq_iff)

section \<open>Properties of probeForumThread\<close>

lemma attemptOnce_status:
  "status (fst (attemptOnce expected w)) =
     (if \<not> tg_ok (next_reply w)
      then (if isTopicMissingOrDeleted (tg_description (next_reply w)) then Missing
            else if isTestMessageInvalid (tg_description (next_reply w)) then ProbeInvalid
            else UnknownError)
      else (case ack_thread (next_reply w) of
              None \<Rightarrow> MissingThreadId
            | Some a \<Rightarrow> if a \<noteq> expected then Redirected else StatusOk))"
  by (simp add: attemptOnce_def tgCall_def next_reply_def Let_def split: option.splits)

lemma attemptOnce_probe_sends:
  "probe_sends (snd (attemptOnce expected w)) = Suc (probe_sends w)"
  by (simp add: attemptOnce_def tgCall_def probe_sends_def Let_def split: option.splits)

text \<open>
  Claim C7. Whenever the probe message is acknowledged as sent and the acknowledgment
  carries a thread id other than the expected one, \<open>probeForumThread\<close> answers
  \<open>redirected\<close> (hence never \<open>ok\<close>): for the first probe, and for the second one sent
  after a first acknowledgment without a thread id. With double-checking enabled, an
  acknowledgment without a thread id makes the probe be sent once more (two probe
  messages in all), and \<open>missing_thread_id\<close> is answered only when the second
  acknowledgment omits the thread id as well.
\<close>

theorem probe_redirected_never_ok:
  "(tg_ok (next_reply w) \<and> ack_thread (next_reply w) = Some a \<and> a \<noteq> expected \<longrightarrow>
      status (fst (probeForumThread expected dc w)) = Redirected)
   \<and> (tg_ok (next_reply w) \<and> ack_thread (next_reply w) = None \<and> dc \<longrightarrow>
      probe_sends (snd (probeForumThread expected dc w)) = probe_sends w + 2
      \<and> (tg_ok (next_reply (snd (attemptOnce expected w)))
           \<and> ack_thread (next_reply (snd (attemptOnce expected w))) = Some a \<and> a \<noteq> expected \<longrightarrow>
         status (fst (probeForumThread expected dc w)) = Redirected)
      \<and> (status (fst (probeForumThread expected dc w)) = MissingThreadId \<longrightarrow>
         tg_ok (next_reply (snd (attemptOnce expected w)))
           \<and> ack_thread (next_reply (snd (attemptOnce expected w))) = None))"
proof -
  obtain first w1 where a1: "attemptOnce expected w = (first, w1)" by (cases "attemptOnce expected w")
  obtain second w2 where a2: "attemptOnce expected w1 = (second, w2)" by (cases "attemptOnce expected w1")
  note s1 = attemptOnce_status[of expected w, unfolded a1 fst_conv]
  note s2 = attemptOnce_status[of expected w1, unfolded a2 fst_conv]
  have n1: "probe_sends w1 = Suc (probe_sends w)" using attemptOnce_probe_sends[of expected w] a1 by simp
  have n2: "probe_sends w2 = Suc (probe_sends w1)" using attemptOnce_probe_sends[of expected w1] a2 by simp
  have lg: "probe_sends (Logger l e w2) = probe_sends w2" for l e
    by (simp add: Logger_def probe_sends_def)
  show ?thesis
    unfolding probeForumThread_def a1 a2 Let_def prod.case
    using s1 s2 n1 n2 lg
    by (auto split: option.splits if_splits)
qed

theorem probe_redirected_never_ok_witness:
  "status (fst (probeForumThread 5 True redirecting_world)) = Redirected
   \<and> status (fst (probeForumThread 5 True world0)) = MissingThreadId
   \<and> probe_sends (snd (probeForumThread 5 True world0)) = 2
   \<and> tg_calls (snd (probeForumThread 5 True world0)) =
       [SendMessage (-1001234) (Some 5) (Text ''probe'') [], DeleteMessage (-1001234) 500,
        SendMessage (-1001234) (Some 5) (Text ''probe'') [], DeleteMessage (-1001234) 502]"
  using probe_redirected_never_ok [where w = redirecting_world and expected = 5 and a = 7 and dc = True]
    probe_redirected_never_ok [where w = world0 and expected = 5 and a = 7 and dc = True]
  by (simp add: probeForumThread_def attemptOnce_def tgCall_def next_reply_def ack_thread_def
      ack_message_def truthy_def probe_sends_def Logger_def world0_def redirecting_world_def Let_def)

section \<open>Properties of the pending set\<close>




lemma tgCall_TOPIC_MAP [simp]: "TOPIC_MAP (snd (tgCall c w)) = TOPIC_MAP w"
  by (simp add: tgCall_def)

lemma Logger_TOPIC_MAP [simp]: "TOPIC_MAP (Logger l e w) = TOPIC_MAP w"
  by (simp add: Logger_def)

lemma kv_put_TOPIC_MAP [simp]: "TOPIC_MAP (kv_put k v w) = (TOPIC_MAP w)(k \<mapsto> v)"
  by (simp add: kv_put_def)

lemma kv_delete_TOPIC_MAP [simp]: "TOPIC_MAP (kv_delete k w) = (TOPIC_MAP w)(k := None)"
  by (simp add: kv_delete_def)






lemma challenges_ok_frame:
  "challenges_ok w \<Longrightarrow> (\<And>vid. TOPIC_MAP w' (K_chal vid) = TOPIC_MAP w (K_chal vid)) \<Longrightarrow> challenges_ok w'"
  by (simp add: challenges_ok_def)









lemma dbUserUpdate_TOPIC_MAP [simp]: "TOPIC_MAP (dbUserUpdate u f w) = TOPIC_MAP w"
  by (simp add: dbUserUpdate_def Let_def split: option.splits)

lemma dbSetVerifyState_TOPIC_MAP [simp]: "TOPIC_MAP (dbSetVerifyState u s w) = TOPIC_MAP w"
  by (simp add: dbSetVerifyState_def Let_def)




section \<open>Properties of withUserLock\<close>










lemma effects_of_no_rejection: "HeartbeatRejected \<notin> set (effects_of es)"
  by (induction es rule: effects_of.induct) auto

lemma effects_of_no_release: "ReleaseCalled k t \<notin> set (effects_of es)"
  by (induction es rule: effects_of.induct) auto




lemma put_stub_binding [simp]: "(RATE_LIMIT_DO (put_stub userId stub w) = None) = (RATE_LIMIT_DO w = None)"
  by (simp add: put_stub_def split: option.splits)













section \<open>Properties of the router\<close>

text \<open>What the steps of the reset and of the challenge subsystem leave unchanged.\<close>


lemma Logger_fields [simp]:
  "TG_BOT_DB (Logger l e w) = TG_BOT_DB w" "threadHealthCache (Logger l e w) = threadHealthCache w"
  "tg_calls (Logger l e w) = tg_calls w" "RATE_LIMIT_DO (Logger l e w) = RATE_LIMIT_DO w"
  "clock (Logger l e w) = clock w" "tg_replies (Logger l e w) = tg_replies w"
  "SUPERGROUP_ID (Logger l e w) = SUPERGROUP_ID w"
  by (simp_all add: Logger_def)

lemma tgCall_fields [simp]:
  "TG_BOT_DB (snd (tgCall c w)) = TG_BOT_DB w" "threadHealthCache (snd (tgCall c w)) = threadHealthCache w"
  "tg_calls (snd (tgCall c w)) = tg_calls w @ [c]" "RATE_LIMIT_DO (snd (tgCall c w)) = RATE_LIMIT_DO w"
  "clock (snd (tgCall c w)) = clock w" "SUPERGROUP_ID (snd (tgCall c w)) = SUPERGROUP_ID w"
  by (simp_all add: tgCall_def)

lemma kv_put_fields [simp]:
  "TG_BOT_DB (kv_put k v w) = TG_BOT_DB w" "threadHealthCache (kv_put k v w) = threadHealthCache w"
  "tg_calls (kv_put k v w) = tg_calls w" "RATE_LIMIT_DO (kv_put k v w) = RATE_LIMIT_DO w"
  "clock (kv_put k v w) = clock w"
  by (simp_all add: kv_put_def)

lemma kv_delete_fields [simp]:
  "TG_BOT_DB (kv_delete k w) = TG_BOT_DB w" "threadHealthCache (kv_delete k w) = threadHealthCache w"
  "tg_calls (kv_delete k w) = tg_calls w" "RATE_LIMIT_DO (kv_delete k w) = RATE_LIMIT_DO w"
  "clock (kv_delete k w) = clock w"
  by (simp_all add: kv_delete_def)

lemma hasD1_simps [simp]:
  "hasD1 (Logger l e w) = hasD1 w" "hasD1 (snd (tgCall c w)) = hasD1 w"
  "hasD1 (kv_put k v w) = hasD1 w" "hasD1 (kv_delete k w) = hasD1 w"
  "hasD1 (w\<lparr>threadHealthCache := hc\<rparr>) = hasD1 w"
  by (simp_all add: hasD1_def)

lemma dbUserUpdate_fields [simp]:
  "threadHealthCache (dbUserUpdate u f w) = threadHealthCache w"
  "tg_calls (dbUserUpdate u f w) = tg_calls w" "RATE_LIMIT_DO (dbUserUpdate u f w) = RATE_LIMIT_DO w"
  "clock (dbUserUpdate u f w) = clock w" "hasD1 (dbUserUpdate u f w) = hasD1 w"
  by (simp_all add: dbUserUpdate_def hasD1_def Let_def split: option.splits)

lemma dbThreadDelete_fields [simp]:
  "threadHealthCache (dbThreadDelete t w) = threadHealthCache w"
  "tg_calls (dbThreadDelete t w) = tg_calls w" "RATE_LIMIT_DO (dbThreadDelete t w) = RATE_LIMIT_DO w"
  "clock (dbThreadDelete t w) = clock w" "hasD1 (dbThreadDelete t w) = hasD1 w"
  "TOPIC_MAP (dbThreadDelete t w) = TOPIC_MAP w"
  by (simp_all add: dbThreadDelete_def hasD1_def split: option.splits)



















subsection \<open>Evaluation on the examples\<close>


lemma bound_world_fields:
  "RATE_LIMIT_DO bound_world = None" "TG_BOT_DB bound_world = None"
  "SUPERGROUP_ID bound_world = -1001234" "threadHealthCache bound_world = Map.empty"
  "tg_calls bound_world = []" "clock bound_world = 0" "logged bound_world = []"
  "tg_replies bound_world n = \<lparr>tg_ok = True,
         tg_result = Some \<lparr>message_thread_id = Some 7, message_id = Some (int n + 500)\<rparr>,
         tg_description = None\<rparr>"
  by (simp_all add: bound_world_def redirecting_world_def world0_def)

lemma bound_world_kv:
  "TOPIC_MAP bound_world = [K_verified 42 \<mapsto> Str ''1'',
      K_user 42 \<mapsto> RecJSON \<lparr>thread_id = Some 5, title = Some ''User'', closed = False\<rparr>,
      K_thread 5 \<mapsto> Str ''42'']"
  by (simp add: bound_world_def redirecting_world_def world0_def)








end
